theory Spec2Isabelle
  imports Main "HOL-Library.AList"
begin

section \<open>The runtime manager of common/runtime/manager/manager.go\<close>

text \<open>
  The manager owns no behaviour of its own besides the order in which it calls its
  collaborators: the registry, the servers, the services, the runtime. Those are Go
  interfaces whose implementations live outside this file, so the model takes them as a
  record of functions (\<open>caps\<close>) over an arbitrary world \<open>'w\<close>: a call that has an effect
  maps the world to a result and a new world, a query only reads the world. The manager's
  methods pass a state along that holds the manager struct, the world and the \<open>trace\<close>,
  the list of calls made so far, in the order they were made.
\<close>

subsection \<open>Values\<close>

text \<open>
  Interface values are references: a service, a server and a registry are each the
  address of an object. A nil interface value is \<open>None\<close> of the option type.
\<close>

type_synonym svc = nat
type_synonym srv = nat
type_synonym reg = nat

text \<open>
  A Go \<open>error\<close> value is either the sentinel \<open>os.ErrNotExist\<close>, which the broker handler
  compares by identity, or any other error, kept with its message.
\<close>

datatype error = ErrNotExist | Error string

text \<open>
  What a method of the manager ends with: \<open>return nil\<close>, \<open>return err\<close>, or a run-time panic
  (a method called on a nil interface value), which no caller in this file recovers.
\<close>

datatype ret = Done | Failed error | Panicked

fun ret_of :: "error option \<Rightarrow> ret" where
  "ret_of None = Done"
| "ret_of (Some e) = Failed e"

text \<open>
  Modelled from the spec: the declarations of \<open>registry.Status\<close>, \<open>registry.StatusStopped\<close>,
  \<open>registry.StatusReady\<close> and \<open>registry.MetaStatusKey\<close> are not in the sources. A status
  is a string (the source converts it with \<open>string(registry.StatusStopped)\<close>); the spec
  names the literal \<open>Stopped\<close>, the status \<open>Ready\<close> and a status key of the metadata.
\<close>

definition StatusStopped :: string where
  "StatusStopped = ''Stopped''"

definition StatusReady :: string where
  "StatusReady = ''Ready''"

definition MetaStatusKey :: string where
  "MetaStatusKey = ''status''"

text \<open>Modelled from the spec: the key \<open>runtime.NodeMetaPID\<close> of a node's metadata.\<close>

definition NodeMetaPID :: string where
  "NodeMetaPID = ''pid''"

datatype item_type = NODE | SERVER | SERVICE

datatype reg_filter = WithType item_type | WithName string | WithActionAny

datatype register_option =
    WithEdgeTo string string
  | WithDeregisterFull
  | WithRegisterFailFast

text \<open>
  A serve option wraps a closure. The closures this file builds are the method values
  \<open>svc.Start\<close> and \<open>svc.OnServe\<close>; every other closure or option comes from the caller.
\<close>

datatype hook = StartOf svc | OnServeOf svc | CallerHook nat

datatype serve_option =
    WithBeforeServe hook
  | WithAfterServe hook
  | CallerOption nat

text \<open>A Go \<open>map[string]string\<close> read at a key: the empty string when the key is absent.\<close>

definition go_lookup :: "(string \<times> string) list \<Rightarrow> string \<Rightarrow> string" where
  "go_lookup m k = (case map_of m k of None \<Rightarrow> [] | Some v \<Rightarrow> v)"

text \<open>
  A registry item (its type is what the \<open>WithType\<close> filter of a registry selects; the
  manager never reads it) with the results of the four downcasts the source tries on it
  (\<open>As(&svc)\<close> with a \<open>service.Service\<close>, a \<open>server.Server\<close>, a \<open>registry.Service\<close> and a
  \<open>registry.Server\<close> target): the in-memory handle when the first two succeed, and whether
  the item is a registry projection of a service or of a server.
\<close>

record item =
  item_Type :: item_type
  item_ID :: string
  item_Name :: string
  item_Metadata :: "(string \<times> string) list"
  as_service :: "svc option"
  as_server :: "srv option"
  as_reg_service :: bool
  as_reg_server :: bool

text \<open>What \<open>Register\<close> is given: a plain item (the root node) or a service.\<close>

datatype reg_arg = ItemArg item | ServiceArg svc

text \<open>
  The fields of \<open>service.ServiceOptions\<close> that the manager only reads. The field \<open>Server\<close>,
  which \<open>Init\<close> writes, and the registry of the field \<open>Context\<close> are kept in the state.
\<close>

record service_options =
  Tags :: "string list"
  Fork :: bool
  AutoStart :: bool
  ForceRegister :: bool
  Unique :: bool
  AutoRestart :: bool

subsection \<open>The trace\<close>

text \<open>
  One event for every call with an effect that leaves the manager (registry writes,
  server and service lifecycle calls, the runtime, a goroutine started with \<open>go\<close>), and
  one for every entry into one of the manager's four lifecycle methods, so that
  "the handler invokes \<open>stopService\<close> and not \<open>startService\<close>" is a statement about the trace.
\<close>

datatype event =
    EvRegister reg reg_arg "register_option list"
  | EvDeregister reg "item option" "register_option list"
  | EvRegisterEdge reg string string string
  | EvOpenRegistry string
  | EvOpenServer string
  | EvRuntimeInit string
  | EvCreateNode
  | EvServe srv "serve_option list"
  | EvServerStop srv "register_option list"
  | EvServiceStart svc
  | EvServiceStop svc "register_option list"
  | EvServiceOnServe svc
  | EvGoWatchUniqueNeedsStart svc
  | EnterStartServer "srv option" "serve_option list"
  | EnterStopServer "srv option" "register_option list"
  | EnterStartService svc
  | EnterStopService svc "register_option list"

subsection \<open>The collaborators\<close>

record 'w caps =
  svc_ID :: "svc \<Rightarrow> string"
  svc_Name :: "svc \<Rightarrow> string"
  svc_ServerScheme :: "svc \<Rightarrow> string"
  svc_Options :: "svc \<Rightarrow> service_options"
  svc_Is :: "svc \<Rightarrow> string \<Rightarrow> 'w \<Rightarrow> bool"
  svc_Start :: "svc \<Rightarrow> 'w \<Rightarrow> error option \<times> 'w"
  svc_Stop :: "svc \<Rightarrow> register_option list \<Rightarrow> 'w \<Rightarrow> error option \<times> 'w"
  svc_OnServe :: "svc \<Rightarrow> 'w \<Rightarrow> error option \<times> 'w"
  srv_ID :: "srv \<Rightarrow> string"
  srv_Is :: "srv \<Rightarrow> string \<Rightarrow> 'w \<Rightarrow> bool"
  srv_NeedsRestart :: "srv \<Rightarrow> 'w \<Rightarrow> bool"
  srv_Serve :: "srv \<Rightarrow> serve_option list \<Rightarrow> 'w \<Rightarrow> error option \<times> 'w"
  srv_Stop :: "srv \<Rightarrow> register_option list \<Rightarrow> 'w \<Rightarrow> error option \<times> 'w"
  OpenServer :: "string \<Rightarrow> 'w \<Rightarrow> (error + srv) \<times> 'w"
  OpenRegistry :: "string \<Rightarrow> 'w \<Rightarrow> (error + reg) \<times> 'w"
  reg_List :: "reg \<Rightarrow> reg_filter list \<Rightarrow> 'w \<Rightarrow> error + item list"
  reg_Get :: "reg \<Rightarrow> string \<Rightarrow> reg_filter list \<Rightarrow> 'w \<Rightarrow> error + item"
  reg_Register :: "reg \<Rightarrow> reg_arg \<Rightarrow> register_option list \<Rightarrow> 'w \<Rightarrow> error option \<times> 'w"
  reg_Deregister :: "reg \<Rightarrow> item option \<Rightarrow> register_option list \<Rightarrow> 'w \<Rightarrow> error option \<times> 'w"
  reg_RegisterEdge :: "reg \<Rightarrow> string \<Rightarrow> string \<Rightarrow> string \<Rightarrow> 'w \<Rightarrow> error option \<times> 'w"
  IsFork :: "'w \<Rightarrow> bool"
  IsRequired :: "string \<Rightarrow> string list \<Rightarrow> 'w \<Rightarrow> bool"
  runtime_Init :: "string \<Rightarrow> 'w \<Rightarrow> 'w"
  CreateNode :: "'w \<Rightarrow> item \<times> 'w"
  pid :: string
  ppid :: string

text \<open>
  A Go function that returns \<open>(value, error)\<close> is a function into a sum: with an error
  there is no value (for \<open>List\<close>, no items). \<open>pid\<close> and \<open>ppid\<close> stand for
  \<open>strconv.Itoa(os.Getpid())\<close> and \<open>strconv.Itoa(os.Getppid())\<close>.
\<close>

subsection \<open>The manager and the state\<close>

text \<open>
  The struct \<open>manager\<close>. A Go map is an association list with distinct keys; the order of
  the list is the order in which \<open>range\<close> happens to visit the map, which Go leaves open,
  so a statement proved for every list holds for every order of iteration.
\<close>

record manager =
  ns :: string
  srcUrl :: string
  reg :: reg
  root :: "item option"
  rootIsFork :: bool
  serveOptions :: "serve_option list"
  servers :: "(string \<times> srv) list"
  services :: "(string \<times> svc) list"

text \<open>
  \<open>optServer s v\<close> is the field \<open>v.Options().Server\<close> and \<open>optContextRegistry s v\<close> the
  registry in \<open>v.Options().Context\<close>: the two fields of a service object that \<open>Init\<close> writes.

  Modelled from the spec: the method \<open>Server()\<close> of a service is not in the sources; a
  service is attached to the server of its options, so \<open>v.Server()\<close> reads \<open>optServer\<close> too.
\<close>

record 'w state =
  mgr :: manager
  optServer :: "svc \<Rightarrow> srv option"
  optContextRegistry :: "svc \<Rightarrow> reg option"
  world :: 'w
  trace :: "event list"

definition emit :: "event \<Rightarrow> 'w state \<Rightarrow> 'w state" where
  "emit ev s = s\<lparr>trace := trace s @ [ev]\<rparr>"

text \<open>A call with an effect that returns an \<open>error\<close>: it is logged, and the world moves on.\<close>

definition call :: "event \<Rightarrow> ('w \<Rightarrow> error option \<times> 'w) \<Rightarrow> 'w state \<Rightarrow> ret \<times> 'w state" where
  "call ev f s =
     (case f (world s) of
        (r, w') \<Rightarrow> (ret_of r, s\<lparr>world := w', trace := trace s @ [ev]\<rparr>))"

subsection \<open>The lifecycle engine\<close>

definition serviceServeOptions :: "svc \<Rightarrow> serve_option list" where
  "serviceServeOptions v = [WithBeforeServe (StartOf v), WithAfterServe (OnServeOf v)]"


definition servicesRunningOn :: "'w caps \<Rightarrow> 'w state \<Rightarrow> srv option \<Rightarrow> svc list" where
  "servicesRunningOn c s server =
     filter (\<lambda>v. optServer s v = server \<and> svc_Is c v StatusReady (world s))
       (map snd (services (mgr s)))"

text \<open>
  \<open>regRunningService\<close> drops the error of \<open>List\<close> (\<open>ll, _ := ...\<close>) and walks the items it
  got, returning at the first one whose status metadata is not \<open>Stopped\<close>.
\<close>

fun anyNotStopped :: "item list \<Rightarrow> bool" where
  "anyNotStopped [] = False"
| "anyNotStopped (l # ll) =
     (if go_lookup (item_Metadata l) MetaStatusKey \<noteq> StatusStopped then True
      else anyNotStopped ll)"

definition regRunningService :: "'w caps \<Rightarrow> 'w state \<Rightarrow> string \<Rightarrow> bool" where
  "regRunningService c s name =
     (case reg_List c (reg (mgr s)) [WithType SERVICE, WithName name] (world s) of
        Inl e \<Rightarrow> anyNotStopped []
      | Inr ll \<Rightarrow> anyNotStopped ll)"

definition stopService :: "'w caps \<Rightarrow> svc \<Rightarrow> register_option list \<Rightarrow> 'w state \<Rightarrow> ret \<times> 'w state" where
  "stopService c v oo s = call (EvServiceStop v oo) (svc_Stop c v oo) (emit (EnterStopService v oo) s)"

text \<open>
  The loop of \<open>startServer\<close> over \<open>m.services\<close>: a service whose \<open>Options().Server\<close> is the
  server either gets the arbiter goroutine (unique, and the registry shows a running one) or
  has its two hooks appended to the options.
\<close>

fun startServer_loop ::
  "'w caps \<Rightarrow> srv option \<Rightarrow> svc list \<Rightarrow> serve_option list \<Rightarrow> 'w state \<Rightarrow> serve_option list \<times> 'w state" where
  "startServer_loop c srv [] opts s = (opts, s)"
| "startServer_loop c srv (v # vs) opts s =
     (if optServer s v = srv then
        (if Unique (svc_Options c v) \<and> regRunningService c s (svc_Name c v)
         then startServer_loop c srv vs opts (emit (EvGoWatchUniqueNeedsStart v) s)
         else startServer_loop c srv vs (opts @ serviceServeOptions v) s)
      else startServer_loop c srv vs opts s)"

definition startServer :: "'w caps \<Rightarrow> srv option \<Rightarrow> serve_option list \<Rightarrow> 'w state \<Rightarrow> ret \<times> 'w state" where
  "startServer c srv oo s0 =
     (let s = emit (EnterStartServer srv oo) s0 in
      case startServer_loop c srv (map snd (services (mgr s))) oo s of
        (opts, s1) \<Rightarrow>
          (case srv of
             None \<Rightarrow> (Panicked, s1)
           | Some x \<Rightarrow> call (EvServe x opts) (srv_Serve c x opts) s1))"

text \<open>
  The errgroup of \<open>stopServer\<close> and of \<open>StopAll\<close>: every function given to \<open>Go\<close> runs, and
  \<open>Wait\<close> returns the first error there was. The model runs the goroutines one after the
  other, in the order of the list.
\<close>

fun stopServices :: "'w caps \<Rightarrow> register_option list \<Rightarrow> svc list \<Rightarrow> 'w state \<Rightarrow> ret \<times> 'w state" where
  "stopServices c oo [] s = (Done, s)"
| "stopServices c oo (v # vs) s =
     (case stopService c v oo s of
        (r, s1) \<Rightarrow>
          (case stopServices c oo vs s1 of
             (r', s2) \<Rightarrow> (if r \<noteq> Done then r else r', s2)))"

definition stopServer :: "'w caps \<Rightarrow> srv option \<Rightarrow> register_option list \<Rightarrow> 'w state \<Rightarrow> ret \<times> 'w state" where
  "stopServer c srv oo s0 =
     (let s = emit (EnterStopServer srv oo) s0 in
      case stopServices c oo (servicesRunningOn c s srv) s of
        (er, s1) \<Rightarrow>
          if er \<noteq> Done then (er, s1)
          else (case srv of
                  None \<Rightarrow> (Panicked, s1)
                | Some x \<Rightarrow> call (EvServerStop x oo) (srv_Stop c x oo) s1))"

definition startService :: "'w caps \<Rightarrow> svc \<Rightarrow> 'w state \<Rightarrow> ret \<times> 'w state" where
  "startService c v s0 =
     (let s = emit (EnterStartService v) s0;
          srv = optServer s v;
          opts = serveOptions (mgr s) @ serviceServeOptions v
      in case srv of
           None \<Rightarrow> (Panicked, s)
         | Some x \<Rightarrow>
             if srv_Is c x StatusStopped (world s) then
               call (EvServe x opts) (srv_Serve c x opts) s
             else if srv_NeedsRestart c x (world s) then
               (let opts' = opts @ concat (map serviceServeOptions (servicesRunningOn c s srv)) in
                case stopServer c srv [] s of
                  (Done, s1) \<Rightarrow> call (EvServe x opts') (srv_Serve c x opts') s1
                | (er, s1) \<Rightarrow> (er, s1))
             else
               (case call (EvServiceStart v) (svc_Start c v) s of
                  (Done, s1) \<Rightarrow> call (EvServiceOnServe v) (svc_OnServe c v) s1
                | (er, s1) \<Rightarrow> (er, s1)))"

subsection \<open>The command subscriber\<close>

definition CommandStart :: string where
  "CommandStart = ''start''"

definition CommandStop :: string where
  "CommandStop = ''stop''"

definition CommandRestart :: string where
  "CommandRestart = ''restart''"

text \<open>
  The chain of downcasts of the handler, giving its two variables \<open>svc\<close> and \<open>srv\<close>. The
  \<open>||\<close> of the source does not try \<open>As(&srv)\<close> once \<open>As(&svc)\<close> has succeeded.
\<close>

definition resolve :: "manager \<Rightarrow> item \<Rightarrow> svc option \<times> srv option" where
  "resolve m s =
     (case as_service s of
        Some v \<Rightarrow> (Some v, None)
      | None \<Rightarrow>
          (case as_server s of
             Some x \<Rightarrow> (None, Some x)
           | None \<Rightarrow>
               if as_reg_service s then (map_of (services m) (item_ID s), None)
               else if as_reg_server s then (None, map_of (servers m) (item_ID s))
               else (None, None)))"

definition serviceCommand :: "'w caps \<Rightarrow> string \<Rightarrow> svc \<Rightarrow> 'w state \<Rightarrow> ret \<times> 'w state" where
  "serviceCommand c cmd v s =
     (if cmd = CommandStart then startService c v s
      else if cmd = CommandStop then stopService c v [] s
      else if cmd = CommandRestart then
        (case stopService c v [] s of
           (Done, s1) \<Rightarrow> startService c v s1
         | (er, s1) \<Rightarrow> (er, s1))
      else (Failed (Error (''unsupported command '' @ cmd)), s))"

definition serverCommand :: "'w caps \<Rightarrow> string \<Rightarrow> srv option \<Rightarrow> 'w state \<Rightarrow> ret \<times> 'w state" where
  "serverCommand c cmd srv s =
     (if cmd = CommandStart then startServer c srv (serveOptions (mgr s)) s
      else if cmd = CommandStop then stopServer c srv [] s
      else if cmd = CommandRestart then
        (case stopServer c srv [] s of
           (Done, s1) \<Rightarrow> startServer c srv (serveOptions (mgr s1)) s1
         | (er, s1) \<Rightarrow> (er, s1))
      else (Failed (Error (''unsupported command '' @ cmd)), s))"

text \<open>
  The function that \<open>WatchBroker\<close> subscribes to the command topic, on the raw data of one
  message. After the service branch the source goes on with \<open>else if srv == nil\<close>.
\<close>

definition WatchBroker_handler :: "'w caps \<Rightarrow> (string \<times> string) list \<Rightarrow> 'w state \<Rightarrow> ret \<times> 'w state" where
  "WatchBroker_handler c hh s =
     (let cmd = go_lookup hh ''command'';
          itemName = go_lookup hh ''itemName''
      in case reg_Get c (reg (mgr s)) itemName [WithType SERVER, WithType SERVICE] (world s) of
           Inl err \<Rightarrow> if err = ErrNotExist then (Done, s) else (Failed err, s)
         | Inr it \<Rightarrow>
             (case resolve (mgr s) it of
                (svc, srv) \<Rightarrow>
                  if svc = None \<and> srv = None then (Done, s)
                  else (case svc of
                          Some v \<Rightarrow> serviceCommand c cmd v s
                        | None \<Rightarrow>
                            if srv = None then serverCommand c cmd srv s
                            else (Done, s))))"

subsection \<open>The configuration watcher\<close>

text \<open>
  \<open>_ = f()\<close> drops the error of a call; a panic is not an error and goes on to the caller.
\<close>

fun discard :: "ret \<times> 'w state \<Rightarrow> ret \<times> 'w state" where
  "discard (Panicked, s) = (Panicked, s)"
| "discard (er, s) = (Done, s)"

text \<open>
  The body of the loop of \<open>WatchServicesConfigs\<close> for one event with key \<open>key\<close>: only the
  first item that \<open>List\<close> returns (\<open>ss[0]\<close>) is looked at.
\<close>

definition onConfigEvent :: "'w caps \<Rightarrow> string \<Rightarrow> 'w state \<Rightarrow> ret \<times> 'w state" where
  "onConfigEvent c key s =
     (case reg_List c (reg (mgr s)) [WithName key] (world s) of
        Inl err \<Rightarrow> (Done, s)
      | Inr [] \<Rightarrow> (Done, s)
      | Inr (it # rest) \<Rightarrow>
          (case as_service it of
             None \<Rightarrow> (Done, s)
           | Some v \<Rightarrow>
               if AutoRestart (svc_Options c v) then
                 (case stopService c v [] s of
                    (Done, s1) \<Rightarrow> discard (startService c v s1)
                  | (er, s1) \<Rightarrow> discard (er, s1))
               else (Done, s)))"

fun configLoop :: "'w caps \<Rightarrow> string list \<Rightarrow> 'w state \<Rightarrow> ret \<times> 'w state" where
  "configLoop c [] s = (Done, s)"
| "configLoop c (key # keys) s =
     (case onConfigEvent c key s of
        (Done, s1) \<Rightarrow> configLoop c keys s1
      | (er, s1) \<Rightarrow> (er, s1))"

text \<open>
  \<open>watch\<close> is what \<open>config.WatchMap\<close> returned: an error, or the keys of the events that the
  channel delivers until it is closed.
\<close>

definition WatchServicesConfigs :: "'w caps \<Rightarrow> error + string list \<Rightarrow> 'w state \<Rightarrow> ret \<times> 'w state" where
  "WatchServicesConfigs c watch s =
     (case watch of
        Inl err \<Rightarrow> (Done, s)
      | Inr keys \<Rightarrow> configLoop c keys s)"

subsection \<open>Stopping everything\<close>



subsection \<open>The topology bootstrapper and the service planner\<close>

fun detectRoots :: "'w caps \<Rightarrow> item list \<Rightarrow> item option \<times> item option \<Rightarrow> item option \<times> item option" where
  "detectRoots c [] cp = cp"
| "detectRoots c (r # ii) (current, parent) =
     (let rPID = go_lookup (item_Metadata r) NodeMetaPID in
      if rPID = ppid c then detectRoots c ii (current, Some r)
      else if rPID = pid c then detectRoots c ii (Some r, parent)
      else detectRoots c ii (current, parent))"

text \<open>
  \<open>NewManager\<close> builds the manager of the state it returns; the manager of the state it is
  given is not read.
\<close>

definition NewManager :: "'w caps \<Rightarrow> reg \<Rightarrow> string \<Rightarrow> string \<Rightarrow> 'w state \<Rightarrow> 'w state" where
  "NewManager c rg url namespace s =
     (let m = \<lparr>ns = namespace, srcUrl = url, reg = rg, root = None, rootIsFork = False,
                serveOptions = [], servers = [], services = []\<rparr>
      in case (case reg_List c rg [WithType NODE] (world s) of
                 Inl er \<Rightarrow> (None, None)
               | Inr ii \<Rightarrow> detectRoots c ii (None, None)) of
           (Some cur, parent) \<Rightarrow> s\<lparr>mgr := m\<lparr>root := Some cur\<rparr>\<rparr>
         | (None, parent) \<Rightarrow>
             (case CreateNode c (world s) of
                (node, w1) \<Rightarrow>
                  (case call (EvRegister rg (ItemArg node) []) (reg_Register c rg (ItemArg node) [])
                          (s\<lparr>world := w1, trace := trace s @ [EvCreateNode]\<rparr>) of
                     (Done, s2) \<Rightarrow>
                       (case parent of
                          None \<Rightarrow> s2\<lparr>mgr := m\<lparr>root := Some node\<rparr>\<rparr>
                        | Some p \<Rightarrow>
                            (case call (EvRegisterEdge rg (item_ID p) (item_ID node) ''Fork'')
                                    (reg_RegisterEdge c rg (item_ID p) (item_ID node) ''Fork'') s2 of
                               (er, s3) \<Rightarrow> s3\<lparr>mgr := m\<lparr>root := Some node, rootIsFork := True\<rparr>\<rparr>))
                   | (er, s2) \<Rightarrow> s2\<lparr>mgr := m\<rparr>)))"

text \<open>
  Step 6 of the planner for one service: the server of its scheme, from the local map
  \<open>byScheme\<close> or opened now. An error of \<open>OpenServer\<close> ends \<open>Init\<close>.
\<close>

definition resolveServer ::
  "'w caps \<Rightarrow> string \<Rightarrow> (string \<times> srv) list \<Rightarrow> 'w state \<Rightarrow> (error + srv) \<times> (string \<times> srv) list \<times> 'w state" where
  "resolveServer c scheme byScheme s =
     (case map_of byScheme scheme of
        Some sr \<Rightarrow> (Inr sr, byScheme, s)
      | None \<Rightarrow>
          (case OpenServer c scheme (world s) of
             (Inr x, w1) \<Rightarrow>
               (Inr x, AList.update scheme x byScheme,
                s\<lparr>world := w1, trace := trace s @ [EvOpenServer scheme]\<rparr>)
           | (Inl er, w1) \<Rightarrow>
               (Inl er, byScheme, s\<lparr>world := w1, trace := trace s @ [EvOpenServer scheme]\<rparr>)))"

text \<open>
  The loop of \<open>Init\<close> over the items of the source registry. \<open>m.root.ID()\<close> in the
  argument of \<open>Register\<close> is a method call on \<open>m.root\<close>: with a nil root it panics.
\<close>

fun Init_loop ::
  "'w caps \<Rightarrow> item list \<Rightarrow> (string \<times> srv) list \<Rightarrow> 'w state \<Rightarrow> ret \<times> (string \<times> srv) list \<times> 'w state" where
  "Init_loop c [] byScheme s = (Done, byScheme, s)"
| "Init_loop c (ss # rest) byScheme s0 =
     (case as_service ss of
        None \<Rightarrow> Init_loop c rest byScheme s0
      | Some v \<Rightarrow>
          (let opts = svc_Options c v;
               mustFork = (Fork opts \<and> \<not> IsFork c (world s0));
               s = s0\<lparr>optContextRegistry := (optContextRegistry s0)(v := Some (reg (mgr s0)))\<rparr>
           in if \<not> IsRequired c (svc_Name c v) (Tags opts) (world s) \<and> \<not> ForceRegister opts
              then Init_loop c rest byScheme s
              else if mustFork \<and> \<not> AutoStart opts then Init_loop c rest byScheme s
              else
                (case resolveServer c (svc_ServerScheme c v) byScheme s of
                   (Inl er, byScheme1, s1) \<Rightarrow> (Failed er, byScheme1, s1)
                 | (Inr sr, byScheme1, s1) \<Rightarrow>
                     (let s2 = s1\<lparr>optServer := (optServer s1)(v := Some sr)\<rparr> in
                      if mustFork then Init_loop c rest byScheme1 s2
                      else
                        (case root (mgr s2) of
                           None \<Rightarrow> (Panicked, byScheme1, s2)
                         | Some rt \<Rightarrow>
                             (case call (EvRegister (reg (mgr s2)) (ServiceArg v) [WithEdgeTo (item_ID rt) ''Node''])
                                     (reg_Register c (reg (mgr s2)) (ServiceArg v) [WithEdgeTo (item_ID rt) ''Node'']) s2 of
                                (Done, s3) \<Rightarrow>
                                  Init_loop c rest byScheme1
                                    (s3\<lparr>mgr := (mgr s3)\<lparr>services := AList.update (svc_ID c v) v (services (mgr s3))\<rparr>\<rparr>)
                              | (er, s3) \<Rightarrow> (er, byScheme1, s3)))))))"

text \<open>The last loop of \<open>Init\<close>, over \<open>byScheme\<close>, which the source runs when the root is set.\<close>

fun Init_servers :: "'w caps \<Rightarrow> item \<Rightarrow> srv list \<Rightarrow> 'w state \<Rightarrow> 'w state" where
  "Init_servers c rt [] s = s"
| "Init_servers c rt (sr # srs) s =
     (let s1 = s\<lparr>mgr := (mgr s)\<lparr>servers := AList.update (srv_ID c sr) sr (servers (mgr s))\<rparr>\<rparr> in
      case call (EvRegisterEdge (reg (mgr s1)) (item_ID rt) (srv_ID c sr) ''Node'')
             (reg_RegisterEdge c (reg (mgr s1)) (item_ID rt) (srv_ID c sr) ''Node'') s1 of
        (er, s2) \<Rightarrow> Init_servers c rt srs s2)"

definition Init :: "'w caps \<Rightarrow> 'w state \<Rightarrow> ret \<times> 'w state" where
  "Init c s =
     (case OpenRegistry c (srcUrl (mgr s)) (world s) of
        (Inl err, w1) \<Rightarrow>
          (Failed err, s\<lparr>world := w1, trace := trace s @ [EvOpenRegistry (srcUrl (mgr s))]\<rparr>)
      | (Inr srcReg, w1) \<Rightarrow>
          (let s1 = s\<lparr>world := runtime_Init c (ns (mgr s)) w1,
                       trace := trace s @ [EvOpenRegistry (srcUrl (mgr s)), EvRuntimeInit (ns (mgr s))]\<rparr>
           in case reg_List c srcReg [WithType SERVICE] (world s1) of
                Inl err \<Rightarrow> (Failed err, s1)
              | Inr candidates \<Rightarrow>
                  (case Init_loop c candidates [] s1 of
                     (Done, byScheme, s2) \<Rightarrow>
                       (case root (mgr s2) of
                          None \<Rightarrow> (Done, s2)
                        | Some rt \<Rightarrow> (Done, Init_servers c rt (map snd byScheme) s2))
                   | (er, byScheme, s2) \<Rightarrow> (er, s2))))"

subsection \<open>Shapes of traces\<close>

text \<open>The events of stopping the services \<open>vs\<close> one after the other.\<close>

definition serviceStopEvents :: "register_option list \<Rightarrow> svc list \<Rightarrow> event list" where
  "serviceStopEvents oo vs = concat (map (\<lambda>v. [EnterStopService v oo, EvServiceStop v oo]) vs)"

subsection \<open>Conditions named in the properties\<close>

text \<open>The test of \<open>startServer\<close> that sends a service to the arbiter instead of the server.\<close>

definition uniqueAlreadyRunning :: "'w caps \<Rightarrow> 'w state \<Rightarrow> svc \<Rightarrow> bool" where
  "uniqueAlreadyRunning c s v = (Unique (svc_Options c v) \<and> regRunningService c s (svc_Name c v))"

text \<open>
  The condition as the specification words it, for comparison with \<open>regRunningService\<close>: the
  registry shows an instance of that name whose status is \<open>Ready\<close>.
\<close>

definition registryShowsReady :: "'w caps \<Rightarrow> 'w state \<Rightarrow> string \<Rightarrow> bool" where
  "registryShowsReady c s name =
     (case reg_List c (reg (mgr s)) [WithType SERVICE, WithName name] (world s) of
        Inl e \<Rightarrow> False
      | Inr ll \<Rightarrow> list_ex (\<lambda>l. go_lookup (item_Metadata l) MetaStatusKey = StatusReady) ll)"

section \<open>A test double for the collaborators\<close>

text \<open>
  A small concrete world on which the theorems below are run: two registries (the shared
  one, with handle 7, and a source registry), services whose \<open>Stop\<close> can be made to
  fail, servers with a status, and a shared registry that can be switched off.
\<close>

record fixture =
  fx_items :: "item list"
  fx_source :: "item list"
  fx_svc_status :: "svc \<Rightarrow> string"
  fx_srv_status :: "srv \<Rightarrow> string"
  fx_needs_restart :: "srv list"
  fx_stop_fails :: "svc list"
  fx_registry_down :: bool

fun filterNames :: "reg_filter list \<Rightarrow> string list" where
  "filterNames [] = []"
| "filterNames (WithName n # fs) = n # filterNames fs"
| "filterNames (f # fs) = filterNames fs"

fun filterTypes :: "reg_filter list \<Rightarrow> item_type list" where
  "filterTypes [] = []"
| "filterTypes (WithType t # fs) = t # filterTypes fs"
| "filterTypes (f # fs) = filterTypes fs"

definition fx_matches :: "reg_filter list \<Rightarrow> item \<Rightarrow> bool" where
  "fx_matches fs it =
     (list_all (\<lambda>n. item_Name it = n) (filterNames fs) \<and>
      (filterTypes fs = [] \<or> item_Type it \<in> set (filterTypes fs)))"

definition fx_registry :: "reg \<Rightarrow> fixture \<Rightarrow> item list" where
  "fx_registry r w = (if r = 7 then fx_items w else fx_source w)"

definition fx_failure :: error where
  "fx_failure = Error ''registry unavailable''"

definition fx_options :: "svc \<Rightarrow> service_options" where
  "fx_options v =
     \<lparr>Tags = [''required''], Fork = (v = 4), AutoStart = False, ForceRegister = False,
      Unique = (v = 3), AutoRestart = (v = 2)\<rparr>"

definition fx_name :: "svc \<Rightarrow> string" where
  "fx_name v = (if v = 2 then ''alpha'' else if v = 3 then ''beta'' else if v = 4 then ''gamma'' else ''delta'')"

definition fx_caps :: "fixture caps" where
  "fx_caps =
     \<lparr>svc_ID = fx_name,
      svc_Name = fx_name,
      svc_ServerScheme = (\<lambda>v. ''grpc''),
      svc_Options = fx_options,
      svc_Is = (\<lambda>v st w. fx_svc_status w v = st),
      svc_Start = (\<lambda>v w. (None, w\<lparr>fx_svc_status := (fx_svc_status w)(v := StatusReady)\<rparr>)),
      svc_Stop = (\<lambda>v oo w.
         if v \<in> set (fx_stop_fails w) then (Some (Error ''stop failed''), w)
         else (None, w\<lparr>fx_svc_status := (fx_svc_status w)(v := StatusStopped)\<rparr>)),
      svc_OnServe = (\<lambda>v w. (None, w)),
      srv_ID = (\<lambda>x. if x = 10 then ''grpc-server'' else ''http-server''),
      srv_Is = (\<lambda>x st w. fx_srv_status w x = st),
      srv_NeedsRestart = (\<lambda>x w. x \<in> set (fx_needs_restart w)),
      srv_Serve = (\<lambda>x opts w. (None, w\<lparr>fx_srv_status := (fx_srv_status w)(x := StatusReady)\<rparr>)),
      srv_Stop = (\<lambda>x oo w. (None, w\<lparr>fx_srv_status := (fx_srv_status w)(x := StatusStopped)\<rparr>)),
      OpenServer = (\<lambda>scheme w. (if scheme = ''grpc'' then Inr 10 else Inl (Error ''unknown scheme''), w)),
      OpenRegistry = (\<lambda>url w. (Inr 8, w)),
      reg_List = (\<lambda>r fs w.
         if fx_registry_down w \<and> r = 7 then Inl fx_failure
         else Inr (filter (fx_matches fs) (fx_registry r w))),
      reg_Get = (\<lambda>r name fs w.
         if fx_registry_down w \<and> r = 7 then Inl fx_failure
         else (case filter (fx_matches (WithName name # fs)) (fx_registry r w) of
                 [] \<Rightarrow> Inl ErrNotExist
               | it # rest \<Rightarrow> Inr it)),
      reg_Register = (\<lambda>r a oo w. (if fx_registry_down w then Some fx_failure else None, w)),
      reg_Deregister = (\<lambda>r a oo w. (if fx_registry_down w then Some fx_failure else None, w)),
      reg_RegisterEdge = (\<lambda>r a b l w. (if fx_registry_down w then Some fx_failure else None, w)),
      IsFork = (\<lambda>w. False),
      IsRequired = (\<lambda>name tags w. ''required'' \<in> set tags),
      runtime_Init = (\<lambda>namespace w. w),
      CreateNode = (\<lambda>w. (\<lparr>item_Type = NODE, item_ID = ''node-100'', item_Name = ''node'',
                           item_Metadata = [(NodeMetaPID, ''100'')], as_service = None, as_server = None,
                           as_reg_service = False, as_reg_server = False\<rparr>, w)),
      pid = ''100'',
      ppid = ''1''\<rparr>"

definition fx_service_item :: "svc \<Rightarrow> string \<Rightarrow> item" where
  "fx_service_item v st =
     \<lparr>item_Type = SERVICE, item_ID = fx_name v, item_Name = fx_name v,
      item_Metadata = [(MetaStatusKey, st)], as_service = Some v, as_server = None,
      as_reg_service = True, as_reg_server = False\<rparr>"

definition fx_server_item :: item where
  "fx_server_item =
     \<lparr>item_Type = SERVER, item_ID = ''grpc-server'', item_Name = ''grpc-server'',
      item_Metadata = [(MetaStatusKey, StatusReady)], as_service = None, as_server = Some 10,
      as_reg_service = False, as_reg_server = True\<rparr>"

definition fx_root :: item where
  "fx_root = \<lparr>item_Type = NODE, item_ID = ''node-100'', item_Name = ''node'',
     item_Metadata = [(NodeMetaPID, ''100'')], as_service = None, as_server = None,
     as_reg_service = False, as_reg_server = False\<rparr>"

definition fx_manager :: manager where
  "fx_manager =
     \<lparr>ns = ''main'', srcUrl = ''mem://'', reg = 7, root = Some fx_root, rootIsFork = False,
      serveOptions = [CallerOption 0], servers = [(''grpc-server'', 10)],
      services = [(''alpha'', 2), (''beta'', 3)]\<rparr>"

definition fx_world :: fixture where
  "fx_world =
     \<lparr>fx_items = [fx_service_item 2 StatusReady, fx_service_item 3 StatusReady, fx_server_item],
      fx_source = [fx_service_item 2 StatusStopped, fx_service_item 3 StatusStopped, fx_service_item 4 StatusStopped],
      fx_svc_status = (\<lambda>v. StatusReady),
      fx_srv_status = (\<lambda>x. StatusReady),
      fx_needs_restart = [],
      fx_stop_fails = [],
      fx_registry_down = False\<rparr>"

definition fx_state :: "fixture state" where
  "fx_state =
     \<lparr>mgr = fx_manager, optServer = (\<lambda>v. Some 10), optContextRegistry = (\<lambda>v. Some 7),
      world = fx_world, trace = []\<rparr>"

text \<open>The server is stopped and says that it needs a restart; nothing runs on it.\<close>

definition fx_stopped_needing_restart :: "fixture state" where
  "fx_stopped_needing_restart =
     fx_state\<lparr>world := fx_world\<lparr>fx_svc_status := (\<lambda>v. StatusStopped),
        fx_srv_status := (\<lambda>x. StatusStopped), fx_needs_restart := [10]\<rparr>\<rparr>"

text \<open>
  The server is ready with the services 2 and 3 running on it; service 5 is attached to it,
  stopped, and the server says that it needs a restart.
\<close>

definition fx_adoption :: "fixture state" where
  "fx_adoption =
     fx_state\<lparr>mgr := fx_manager\<lparr>services := [(''alpha'', 2), (''beta'', 3), (''delta'', 5)]\<rparr>,
       world := fx_world\<lparr>fx_svc_status := (\<lambda>v. if v = 5 then StatusStopped else StatusReady),
        fx_needs_restart := [10]\<rparr>\<rparr>"


text \<open>The registry lists the unique service 3 with a status that is neither stopped nor ready.\<close>

definition fx_starting :: "fixture state" where
  "fx_starting =
     fx_state\<lparr>world := fx_world\<lparr>fx_items :=
        [fx_service_item 2 StatusReady, fx_service_item 3 ''Starting'', fx_server_item],
        fx_srv_status := (\<lambda>x. StatusStopped)\<rparr>\<rparr>"

text \<open>The shared registry is down.\<close>

definition fx_registry_is_down :: "fixture state" where
  "fx_registry_is_down =
     fx_state\<lparr>world := fx_world\<lparr>fx_registry_down := True, fx_srv_status := (\<lambda>x. StatusStopped)\<rparr>\<rparr>"

text \<open>
  Two servers, both ready: service 2 runs on server 10 and its \<open>Stop\<close> fails, service 3
  runs on server 11.
\<close>

definition fx_two_servers :: "fixture state" where
  "fx_two_servers =
     fx_state\<lparr>mgr := fx_manager\<lparr>servers := [(''grpc-server'', 10), (''http-server'', 11)]\<rparr>,
       optServer := (\<lambda>v. if v = 3 then Some 11 else Some 10),
       world := fx_world\<lparr>fx_stop_fails := [2]\<rparr>\<rparr>"

text \<open>A registry projection of the server, which only the local map can turn into a handle.\<close>

definition fx_server_projection :: item where
  "fx_server_projection =
     \<lparr>item_Type = SERVER, item_ID = ''grpc-server'', item_Name = ''grpc-server'',
      item_Metadata = [(MetaStatusKey, StatusReady)], as_service = None, as_server = None,
      as_reg_service = False, as_reg_server = True\<rparr>"

definition fx_projected :: "fixture state" where
  "fx_projected = fx_state\<lparr>world := fx_world\<lparr>fx_items := [fx_server_projection]\<rparr>\<rparr>"

text \<open>
  A registry projection of service 2, as another process registered it, listed before the
  service of this process.
\<close>

definition fx_service_projection :: item where
  "fx_service_projection =
     \<lparr>item_Type = SERVICE, item_ID = ''alpha-remote'', item_Name = ''alpha'',
      item_Metadata = [(MetaStatusKey, StatusReady)], as_service = None, as_server = None,
      as_reg_service = True, as_reg_server = False\<rparr>"

definition fx_two_instances :: "fixture state" where
  "fx_two_instances =
     fx_state\<lparr>world := fx_world\<lparr>fx_items := [fx_service_projection, fx_service_item 2 StatusReady]\<rparr>\<rparr>"

text \<open>
  Before \<open>NewManager\<close>: no service has a server yet. In \<open>fx_boot_registry_down\<close> the shared
  registry is down; in \<open>fx_boot\<close> it is up and empty.
\<close>

definition fx_boot :: "fixture state" where
  "fx_boot =
     \<lparr>mgr = fx_manager, optServer = (\<lambda>v. None), optContextRegistry = (\<lambda>v. None),
      world = fx_world\<lparr>fx_items := []\<rparr>, trace = []\<rparr>"

definition fx_boot_registry_down :: "fixture state" where
  "fx_boot_registry_down = fx_boot\<lparr>world := fx_world\<lparr>fx_items := [], fx_registry_down := True\<rparr>\<rparr>"

section \<open>Properties\<close>

lemmas fx_defs = fx_caps_def fx_state_def fx_world_def fx_manager_def fx_server_item_def
  fx_service_item_def fx_name_def fx_options_def fx_registry_def fx_matches_def fx_failure_def
  fx_root_def

lemmas fx_defs2 = fx_starting_def fx_registry_is_down_def fx_two_servers_def fx_server_projection_def
  fx_projected_def fx_adoption_def fx_stopped_needing_restart_def fx_service_projection_def
  fx_two_instances_def fx_boot_def fx_boot_registry_down_def

lemmas const_defs = StatusStopped_def StatusReady_def MetaStatusKey_def NodeMetaPID_def
  CommandStart_def CommandStop_def CommandRestart_def

subsection \<open>Calls and traces\<close>

lemma call_eq:
  "call ev f s = (ret_of (fst (f (world s))), s\<lparr>world := snd (f (world s)), trace := trace s @ [ev]\<rparr>)"
  by (simp add: call_def split: prod.splits)

lemma stopService_eq:
  "stopService c v oo s =
     (case svc_Stop c v oo (world s) of
        (r, w') \<Rightarrow> (ret_of r, s\<lparr>world := w', trace := trace s @ [EnterStopService v oo, EvServiceStop v oo]\<rparr>))"
  by (simp add: stopService_def call_def emit_def split: prod.splits)

lemma servicesRunningOn_cong:
  "mgr s' = mgr s \<Longrightarrow> optServer s' = optServer s \<Longrightarrow> world s' = world s \<Longrightarrow>
   servicesRunningOn c s' x = servicesRunningOn c s x"
  by (simp add: servicesRunningOn_def)

lemma ret_of_not_Panicked: "ret_of r \<noteq> Panicked"
  by (cases r) simp_all

lemma stopService_trace:
  "trace (snd (stopService c v oo s)) = trace s @ [EnterStopService v oo, EvServiceStop v oo]"
  by (simp add: stopService_eq split: prod.splits)



lemma stopServices_Cons:
  "stopServices c oo (v # vs) s =
     (if fst (stopService c v oo s) \<noteq> Done then fst (stopService c v oo s)
      else fst (stopServices c oo vs (snd (stopService c v oo s))),
      snd (stopServices c oo vs (snd (stopService c v oo s))))"
  by (simp split: prod.splits)

lemma stopServices_trace:
  "trace (snd (stopServices c oo vs s)) = trace s @ serviceStopEvents oo vs"
  by (induction vs arbitrary: s)
     (simp_all add: serviceStopEvents_def stopServices_Cons stopService_trace del: stopServices.simps(2))



lemma stopServer_eq:
  "stopServer c (Some x) oo s =
     (case stopServices c oo (servicesRunningOn c s (Some x)) (s\<lparr>trace := trace s @ [EnterStopServer (Some x) oo]\<rparr>) of
        (r, s1) \<Rightarrow> if r \<noteq> Done then (r, s1) else call (EvServerStop x oo) (srv_Stop c x oo) s1)"
  by (simp add: stopServer_def emit_def Let_def servicesRunningOn_def split: prod.splits)

lemma call_trace: "trace (snd (call ev f s)) = trace s @ [ev]"
  by (simp add: call_eq)


lemma call_not_Panicked: "fst (call ev f s) \<noteq> Panicked"
  by (simp add: call_eq ret_of_not_Panicked)

lemma stopServer_fst_snd:
  "stopServer c (Some x) oo s =
     (let p = stopServices c oo (servicesRunningOn c s (Some x)) (s\<lparr>trace := trace s @ [EnterStopServer (Some x) oo]\<rparr>)
      in if fst p \<noteq> Done then p else call (EvServerStop x oo) (srv_Stop c x oo) (snd p))"
  by (simp add: stopServer_eq Let_def split: prod.splits)



lemma stopServer_trace:
  "\<exists>evs. trace (snd (stopServer c (Some x) oo s)) = trace s @ EnterStopServer (Some x) oo # evs"
  by (simp add: stopServer_fst_snd Let_def stopServices_trace call_trace)






lemma startService_enters:
  "\<exists>evs. trace (snd (startService c v s)) = trace s @ EnterStartService v # evs"
proof (cases "optServer s v")
  case None
  then show ?thesis by (simp add: startService_def emit_def Let_def)
next
  case (Some x)
  let ?s = "s\<lparr>trace := trace s @ [EnterStartService v]\<rparr>"
  obtain evs where st: "trace (snd (stopServer c (Some x) [] ?s)) = trace ?s @ EnterStopServer (Some x) [] # evs"
    using stopServer_trace by blast
  show ?thesis
  proof (cases "stopServer c (Some x) [] ?s")
    case (Pair r s1)
    with st have "trace s1 = trace s @ EnterStartService v # EnterStopServer (Some x) [] # evs"
      by simp
    with Some Pair show ?thesis
      by (cases r) (simp_all add: startService_def emit_def Let_def call_eq split: prod.splits ret.splits)
  qed
qed

subsection \<open>The lifecycle engine\<close>



subsection \<open>The command subscriber\<close>

lemma handler_server_handle:
  assumes "reg_Get c (reg (mgr s)) (go_lookup hh ''itemName'') [WithType SERVER, WithType SERVICE] (world s) = Inr it"
    and "resolve (mgr s) it = (None, Some x)"
  shows "WatchBroker_handler c hh s = (Done, s)"
  using assms by (simp add: WatchBroker_handler_def Let_def)

lemma handler_service_handle:
  assumes "reg_Get c (reg (mgr s)) (go_lookup hh ''itemName'') [WithType SERVER, WithType SERVICE] (world s) = Inr it"
    and "fst (resolve (mgr s) it) = Some v"
  shows "WatchBroker_handler c hh s = serviceCommand c (go_lookup hh ''command'') v s"
  using assms by (cases "resolve (mgr s) it") (simp add: WatchBroker_handler_def Let_def)

text \<open>
  Claim C6. A message with the command \<open>restart\<close> whose item resolves to a service handle
  \<open>v\<close> makes the handler enter \<open>stopService\<close> first, which calls \<open>v.Stop()\<close>. When that
  returns an error, the handler returns this error and the trace ends with the two events
  of the stop: \<open>startService\<close> was not entered. When it returns nil, the handler goes on
  with \<open>startService\<close> from the state the stop has left, and the entry into \<open>startService\<close>
  is the next event after the two of the stop.
\<close>

theorem restart_service_stop_then_start:
  assumes "reg_Get c (reg (mgr s)) (go_lookup hh ''itemName'') [WithType SERVER, WithType SERVICE] (world s) = Inr it"
    and "fst (resolve (mgr s) it) = Some v"
    and "go_lookup hh ''command'' = ''restart''"
  shows "case svc_Stop c v [] (world s) of
           (None, w') \<Rightarrow>
             WatchBroker_handler c hh s =
               startService c v (s\<lparr>world := w', trace := trace s @ [EnterStopService v [], EvServiceStop v []]\<rparr>)
             \<and> (\<exists>evs. trace (snd (WatchBroker_handler c hh s)) =
                   trace s @ [EnterStopService v [], EvServiceStop v [], EnterStartService v] @ evs)
         | (Some e, w') \<Rightarrow>
             WatchBroker_handler c hh s =
               (Failed e, s\<lparr>world := w', trace := trace s @ [EnterStopService v [], EvServiceStop v []]\<rparr>)"
proof (cases "svc_Stop c v [] (world s)")
  case (Pair r w')
  let ?s1 = "s\<lparr>world := w', trace := trace s @ [EnterStopService v [], EvServiceStop v []]\<rparr>"
  have h: "WatchBroker_handler c hh s =
      (case ret_of r of Done \<Rightarrow> startService c v ?s1 | er \<Rightarrow> (er, ?s1))"
    using assms Pair
    by (simp add: handler_service_handle serviceCommand_def stopService_eq CommandStart_def CommandStop_def
          CommandRestart_def split: ret.splits)
  show ?thesis
  proof (cases r)
    case None
    with h have "WatchBroker_handler c hh s = startService c v ?s1"
      by simp
    moreover from startService_enters [of c v ?s1]
    have "\<exists>evs. trace (snd (startService c v ?s1)) =
        trace s @ [EnterStopService v [], EvServiceStop v [], EnterStartService v] @ evs"
      by simp
    ultimately show ?thesis
      using Pair None by simp
  next
    case (Some e)
    with h Pair show ?thesis by simp
  qed
qed

theorem restart_service_stop_then_start_witness:
  "reg_Get fx_caps (reg (mgr fx_state)) (go_lookup [(''command'', ''restart''), (''itemName'', ''alpha'')] ''itemName'')
      [WithType SERVER, WithType SERVICE] (world (fx_state\<lparr>world := fx_world\<lparr>fx_stop_fails := [2]\<rparr>\<rparr>)) = Inr (fx_service_item 2 StatusReady)
   \<and> fst (resolve (mgr fx_state) (fx_service_item 2 StatusReady)) = Some 2
   \<and> WatchBroker_handler fx_caps [(''command'', ''restart''), (''itemName'', ''alpha'')]
        (fx_state\<lparr>world := fx_world\<lparr>fx_stop_fails := [2]\<rparr>\<rparr>) =
      (Failed (Error ''stop failed''),
       fx_state\<lparr>world := fx_world\<lparr>fx_stop_fails := [2]\<rparr>, trace := [EnterStopService 2 [], EvServiceStop 2 []]\<rparr>)"
proof -
  let ?hh = "[(''command'', ''restart''), (''itemName'', ''alpha'')]"
  let ?s = "fx_state\<lparr>world := fx_world\<lparr>fx_stop_fails := [2]\<rparr>\<rparr>"
  have g: "reg_Get fx_caps (reg (mgr ?s)) (go_lookup ?hh ''itemName'') [WithType SERVER, WithType SERVICE] (world ?s)
             = Inr (fx_service_item 2 StatusReady)"
    by (simp add: go_lookup_def fx_defs)
  have r: "fst (resolve (mgr ?s) (fx_service_item 2 StatusReady)) = Some 2"
    by (simp add: resolve_def fx_defs)
  have k: "go_lookup ?hh ''command'' = ''restart''"
    by (simp add: go_lookup_def)
  have st: "svc_Stop fx_caps 2 [] (world ?s) = (Some (Error ''stop failed''), world ?s)"
    by (simp add: fx_defs)
  from restart_service_stop_then_start [OF g r k] st g r show ?thesis
    by (simp add: fx_state_def fx_manager_def)
qed

lemma unsupported_service_command:
  assumes "reg_Get c (reg (mgr s)) (go_lookup hh ''itemName'') [WithType SERVER, WithType SERVICE] (world s) = Inr it"
    and "fst (resolve (mgr s) it) = Some v"
    and "go_lookup hh ''command'' \<notin> {''start'', ''stop'', ''restart''}"
  shows "WatchBroker_handler c hh s = (Failed (Error (''unsupported command '' @ go_lookup hh ''command'')), s)"
  using assms by (simp add: handler_service_handle serviceCommand_def const_defs)

text \<open>
  Claim C1 does not hold of the code. The item of the message is the server, in memory or
  as a projection that the local map turns into the handle 10; the handler leaves the
  service branch and tests \<open>srv == nil\<close>, which is false, so it returns nil: the state,
  and with it the trace, is the one it started from. Neither \<open>startServer\<close> nor
  \<open>stopServer\<close> is entered for \<open>start\<close>, \<open>stop\<close> or \<open>restart\<close>.
\<close>

theorem server_commands_not_dispatched:
  "resolve (mgr fx_state) fx_server_item = (None, Some 10)
   \<and> WatchBroker_handler fx_caps [(''command'', ''start''), (''itemName'', ''grpc-server'')] fx_state = (Done, fx_state)
   \<and> WatchBroker_handler fx_caps [(''command'', ''stop''), (''itemName'', ''grpc-server'')] fx_state = (Done, fx_state)
   \<and> WatchBroker_handler fx_caps [(''command'', ''restart''), (''itemName'', ''grpc-server'')] fx_state = (Done, fx_state)
   \<and> resolve (mgr fx_projected) fx_server_projection = (None, Some 10)
   \<and> WatchBroker_handler fx_caps [(''command'', ''start''), (''itemName'', ''grpc-server'')] fx_projected = (Done, fx_projected)"
  by (simp add: WatchBroker_handler_def go_lookup_def resolve_def fx_defs fx_defs2 Let_def)

text \<open>
  Claim C5 does not hold of the code for a server handle, by the same test \<open>srv == nil\<close>:
  the command \<open>reboot\<close> sent to the server is answered with nil, not with the error
  \<open>unsupported command reboot\<close>. For a service handle the error is returned
  (\<open>unsupported_service_command\<close>).
\<close>

theorem unsupported_server_command_not_reported:
  "resolve (mgr fx_state) fx_server_item = (None, Some 10)
   \<and> WatchBroker_handler fx_caps [(''command'', ''reboot''), (''itemName'', ''grpc-server'')] fx_state = (Done, fx_state)"
  by (simp add: WatchBroker_handler_def go_lookup_def resolve_def fx_defs fx_defs2 Let_def)
subsection \<open>Starting a server\<close>

lemma uniqueAlreadyRunning_cong:
  "mgr s' = mgr s \<Longrightarrow> world s' = world s \<Longrightarrow> uniqueAlreadyRunning c s' = uniqueAlreadyRunning c s"
  by (simp add: uniqueAlreadyRunning_def regRunningService_def fun_eq_iff)

lemma startServer_loop_closed:
  "startServer_loop c srv vs opts s =
     (opts @ concat (map serviceServeOptions
                 (filter (\<lambda>u. \<not> uniqueAlreadyRunning c s u) (filter (\<lambda>u. optServer s u = srv) vs))),
      s\<lparr>trace := trace s @ map EvGoWatchUniqueNeedsStart
                 (filter (uniqueAlreadyRunning c s) (filter (\<lambda>u. optServer s u = srv) vs))\<rparr>)"
proof (induction vs arbitrary: opts s)
  case Nil
  show ?case by simp
next
  case (Cons v vs)
  have e: "uniqueAlreadyRunning c (emit (EvGoWatchUniqueNeedsStart v) s) = uniqueAlreadyRunning c s"
    by (rule uniqueAlreadyRunning_cong) (simp_all add: emit_def)
  have u: "(Unique (svc_Options c v) \<and> regRunningService c s (svc_Name c v)) = uniqueAlreadyRunning c s v"
    by (simp add: uniqueAlreadyRunning_def)
  show ?case
    by (simp add: Cons.IH e u del: de_Morgan_conj) (simp add: emit_def)
qed

lemma startServer_closed:
  "startServer c (Some x) oo s =
     (let attached = filter (\<lambda>u. optServer s u = Some x) (map snd (services (mgr s)));
          spawned = filter (uniqueAlreadyRunning c s) attached;
          added = concat (map serviceServeOptions (filter (\<lambda>u. \<not> uniqueAlreadyRunning c s u) attached))
      in call (EvServe x (oo @ added)) (srv_Serve c x (oo @ added))
           (s\<lparr>trace := trace s @ EnterStartServer (Some x) oo # map EvGoWatchUniqueNeedsStart spawned\<rparr>))"
proof -
  have e: "uniqueAlreadyRunning c (emit (EnterStartServer (Some x) oo) s) = uniqueAlreadyRunning c s"
    by (rule uniqueAlreadyRunning_cong) (simp_all add: emit_def)
  show ?thesis
    by (simp add: startServer_def Let_def startServer_loop_closed e) (simp add: emit_def)
qed

lemma hooks_in_added:
  "(set (serviceServeOptions v) \<inter> set (concat (map serviceServeOptions vs)) = {}) = (v \<notin> set vs)"
  "(set (serviceServeOptions v) \<subseteq> set (concat (map serviceServeOptions vs))) = (v \<in> set vs)"
  by (auto simp add: serviceServeOptions_def)

lemma regRunningService_iff:
  "regRunningService c s name =
     (\<exists>ll. reg_List c (reg (mgr s)) [WithType SERVICE, WithName name] (world s) = Inr ll
        \<and> (\<exists>l \<in> set ll. go_lookup (item_Metadata l) MetaStatusKey \<noteq> StatusStopped))"
proof -
  have "anyNotStopped ll = (\<exists>l \<in> set ll. go_lookup (item_Metadata l) MetaStatusKey \<noteq> StatusStopped)" for ll
    by (induction ll) auto
  then show ?thesis
    by (auto simp add: regRunningService_def split: sum.splits)
qed

text \<open>
  Claim C3, as amended. For a retained service \<open>v\<close> attached to the server \<open>x\<close> that
  \<open>startServer\<close> starts: \<open>Serve\<close> is called once, after the arbiters have been started, with the
  options given followed by the hooks of the attached services that were not sent to an
  arbiter; and \<open>v\<close> is sent to an arbiter, its hooks left out, exactly when it is marked
  unique and \<open>regRunningService\<close> holds of its name, that is when the registry's list of the
  services of that name (the service's own entry not excluded) comes back without error and
  holds an item whose status metadata is not \<open>Stopped\<close>.
\<close>

theorem startServer_defers_unique_running:
  assumes "v \<in> snd ` set (services (mgr s))" and "optServer s v = Some x"
  shows
    "(let attached = filter (\<lambda>u. optServer s u = Some x) (map snd (services (mgr s)));
          spawned = filter (uniqueAlreadyRunning c s) attached;
          added = concat (map serviceServeOptions (filter (\<lambda>u. \<not> uniqueAlreadyRunning c s u) attached))
      in startServer c (Some x) oo s =
           call (EvServe x (oo @ added)) (srv_Serve c x (oo @ added))
             (s\<lparr>trace := trace s @ EnterStartServer (Some x) oo # map EvGoWatchUniqueNeedsStart spawned\<rparr>)
         \<and> ((v \<in> set spawned \<and> set (serviceServeOptions v) \<inter> set added = {})
              = (Unique (svc_Options c v) \<and> regRunningService c s (svc_Name c v)))
         \<and> ((v \<notin> set spawned \<and> set (serviceServeOptions v) \<subseteq> set added)
              = (\<not> (Unique (svc_Options c v) \<and> regRunningService c s (svc_Name c v)))))
     \<and> regRunningService c s (svc_Name c v) =
         (\<exists>ll. reg_List c (reg (mgr s)) [WithType SERVICE, WithName (svc_Name c v)] (world s) = Inr ll
            \<and> (\<exists>l \<in> set ll. go_lookup (item_Metadata l) MetaStatusKey \<noteq> StatusStopped))"
proof -
  let ?attached = "filter (\<lambda>u. optServer s u = Some x) (map snd (services (mgr s)))"
  have m: "v \<in> set ?attached"
    using assms by force
  have sp: "(v \<in> set (filter (uniqueAlreadyRunning c s) ?attached)) = uniqueAlreadyRunning c s v"
    using m by simp
  have ad: "(v \<in> set (filter (\<lambda>u. \<not> uniqueAlreadyRunning c s u) ?attached)) = (\<not> uniqueAlreadyRunning c s v)"
    using m by simp
  have u: "uniqueAlreadyRunning c s v = (Unique (svc_Options c v) \<and> regRunningService c s (svc_Name c v))"
    by (simp add: uniqueAlreadyRunning_def)
  have st: "startServer c (Some x) oo s =
      call (EvServe x (oo @ concat (map serviceServeOptions (filter (\<lambda>u. \<not> uniqueAlreadyRunning c s u) ?attached))))
        (srv_Serve c x (oo @ concat (map serviceServeOptions (filter (\<lambda>u. \<not> uniqueAlreadyRunning c s u) ?attached))))
        (s\<lparr>trace := trace s @ EnterStartServer (Some x) oo #
             map EvGoWatchUniqueNeedsStart (filter (uniqueAlreadyRunning c s) ?attached)\<rparr>)"
    by (simp add: startServer_closed Let_def)
  have "let attached = filter (\<lambda>u. optServer s u = Some x) (map snd (services (mgr s)));
          spawned = filter (uniqueAlreadyRunning c s) attached;
          added = concat (map serviceServeOptions (filter (\<lambda>u. \<not> uniqueAlreadyRunning c s u) attached))
      in startServer c (Some x) oo s =
           call (EvServe x (oo @ added)) (srv_Serve c x (oo @ added))
             (s\<lparr>trace := trace s @ EnterStartServer (Some x) oo # map EvGoWatchUniqueNeedsStart spawned\<rparr>)
         \<and> ((v \<in> set spawned \<and> set (serviceServeOptions v) \<inter> set added = {})
              = (Unique (svc_Options c v) \<and> regRunningService c s (svc_Name c v)))
         \<and> ((v \<notin> set spawned \<and> set (serviceServeOptions v) \<subseteq> set added)
              = (\<not> (Unique (svc_Options c v) \<and> regRunningService c s (svc_Name c v))))"
    unfolding Let_def hooks_in_added sp ad u [symmetric] using st by simp
  then show ?thesis
    using regRunningService_iff [of c s "svc_Name c v"] by simp
qed

text \<open>
  Claim C3 as stated fails: the registry shows no ready instance of the unique service 3
  (its only entry has the status \<open>Starting\<close>), and still the service gets the arbiter and
  its hooks are left out of the options.
\<close>

theorem unique_without_ready_instance_counterexample:
  "snd ` set (services (mgr fx_starting)) = {2, 3}
   \<and> optServer fx_starting 3 = Some 10
   \<and> Unique (svc_Options fx_caps 3)
   \<and> \<not> registryShowsReady fx_caps fx_starting (svc_Name fx_caps 3)
   \<and> trace (snd (startServer fx_caps (Some 10) [CallerOption 7] fx_starting)) =
       [EnterStartServer (Some 10) [CallerOption 7], EvGoWatchUniqueNeedsStart 3,
        EvServe 10 [CallerOption 7, WithBeforeServe (StartOf 2), WithAfterServe (OnServeOf 2)]]"
  by (simp add: startServer_def emit_def call_def Let_def regRunningService_def registryShowsReady_def
        serviceServeOptions_def go_lookup_def fx_defs fx_defs2 const_defs)

theorem startServer_defers_unique_running_witness:
  "3 \<in> snd ` set (services (mgr fx_state))
   \<and> optServer fx_state 3 = Some 10
   \<and> Unique (svc_Options fx_caps 3) \<and> regRunningService fx_caps fx_state (svc_Name fx_caps 3)
   \<and> trace (snd (startServer fx_caps (Some 10) [CallerOption 7] fx_state)) =
       [EnterStartServer (Some 10) [CallerOption 7], EvGoWatchUniqueNeedsStart 3,
        EvServe 10 [CallerOption 7, WithBeforeServe (StartOf 2), WithAfterServe (OnServeOf 2)]]"
proof -
  have a: "3 \<in> snd ` set (services (mgr fx_state))"
    by (simp add: fx_defs)
  have b: "optServer fx_state 3 = Some 10"
    by (simp add: fx_defs)
  have u: "Unique (svc_Options fx_caps 3)"
    by (simp add: fx_defs)
  have r: "regRunningService fx_caps fx_state (svc_Name fx_caps 3)"
    by (simp add: regRunningService_def go_lookup_def fx_defs const_defs)
  have r1: "\<not> uniqueAlreadyRunning fx_caps fx_state 2"
    by (simp add: uniqueAlreadyRunning_def fx_defs)
  have r2: "uniqueAlreadyRunning fx_caps fx_state 3"
    using u r by (simp add: uniqueAlreadyRunning_def)
  have l: "map snd (services (mgr fx_state)) = [2, 3]" "optServer fx_state = (\<lambda>v. Some 10)" "trace fx_state = []"
    by (simp_all add: fx_defs)
  from startServer_defers_unique_running [OF a b, of fx_caps "[CallerOption 7]"]
  have "trace (snd (startServer fx_caps (Some 10) [CallerOption 7] fx_state)) =
       [EnterStartServer (Some 10) [CallerOption 7], EvGoWatchUniqueNeedsStart 3,
        EvServe 10 [CallerOption 7, WithBeforeServe (StartOf 2), WithAfterServe (OnServeOf 2)]]"
    by (simp add: Let_def l r1 r2 call_eq serviceServeOptions_def)
  with a b u r show ?thesis by simp
qed


subsection \<open>Stopping everything\<close>


subsection \<open>The configuration watcher\<close>

lemma discard_call: "discard (call ev f t) = (Done, snd (call ev f t))"
  using call_not_Panicked [of ev f t] by (cases "call ev f t"; cases "fst (call ev f t)") simp_all

text \<open>
  Claim C9, as amended. For one event of the configuration watch with key \<open>key\<close>: when the
  registry's list for that name comes back without error and its first item downcasts to a
  service \<open>v\<close> with \<open>AutoRestart\<close> set, the manager enters \<open>stopService\<close> on \<open>v\<close>; when the
  stop returns nil it goes on with \<open>startService\<close> on \<open>v\<close> (whose error it drops), and when
  the stop fails it does nothing more. In every other case (an error of \<open>List\<close>, no item, a
  first item that is not a service, \<open>AutoRestart\<close> unset) the state is left as it was: no
  call is made.
\<close>

theorem config_event_restarts_first_item:
  "(reg_List c (reg (mgr s)) [WithName key] (world s) = Inr (it # rest) \<and> as_service it = Some v
      \<and> AutoRestart (svc_Options c v) \<longrightarrow>
      (case svc_Stop c v [] (world s) of
         (None, w') \<Rightarrow>
           onConfigEvent c key s =
             discard (startService c v (s\<lparr>world := w', trace := trace s @ [EnterStopService v [], EvServiceStop v []]\<rparr>))
       | (Some e, w') \<Rightarrow>
           onConfigEvent c key s =
             (Done, s\<lparr>world := w', trace := trace s @ [EnterStopService v [], EvServiceStop v []]\<rparr>)))
   \<and> (\<not> (\<exists>it rest v. reg_List c (reg (mgr s)) [WithName key] (world s) = Inr (it # rest)
             \<and> as_service it = Some v \<and> AutoRestart (svc_Options c v)) \<longrightarrow>
        onConfigEvent c key s = (Done, s))"
proof (intro conjI impI)
  assume "reg_List c (reg (mgr s)) [WithName key] (world s) = Inr (it # rest) \<and> as_service it = Some v
      \<and> AutoRestart (svc_Options c v)"
  then show "case svc_Stop c v [] (world s) of
         (None, w') \<Rightarrow>
           onConfigEvent c key s =
             discard (startService c v (s\<lparr>world := w', trace := trace s @ [EnterStopService v [], EvServiceStop v []]\<rparr>))
       | (Some e, w') \<Rightarrow>
           onConfigEvent c key s =
             (Done, s\<lparr>world := w', trace := trace s @ [EnterStopService v [], EvServiceStop v []]\<rparr>)"
    by (simp add: onConfigEvent_def stopService_eq split: prod.splits option.splits)
next
  assume "\<not> (\<exists>it rest v. reg_List c (reg (mgr s)) [WithName key] (world s) = Inr (it # rest)
             \<and> as_service it = Some v \<and> AutoRestart (svc_Options c v))"
  then show "onConfigEvent c key s = (Done, s)"
    by (auto simp add: onConfigEvent_def split: sum.splits list.splits option.splits)
qed

text \<open>
  Claim C9 as stated fails: the registry yields an item of the name \<open>alpha\<close> that downcasts
  to a service with \<open>AutoRestart\<close> set, but it is the second item of the list; the first is
  the projection of another process's instance, and nothing is restarted.
\<close>

theorem config_event_second_item_counterexample:
  "reg_List fx_caps (reg (mgr fx_two_instances)) [WithName ''alpha''] (world fx_two_instances) =
      Inr [fx_service_projection, fx_service_item 2 StatusReady]
   \<and> as_service (fx_service_item 2 StatusReady) = Some 2
   \<and> AutoRestart (svc_Options fx_caps 2)
   \<and> onConfigEvent fx_caps ''alpha'' fx_two_instances = (Done, fx_two_instances)"
  by (simp add: onConfigEvent_def fx_defs fx_defs2 const_defs)

theorem config_event_restarts_first_item_witness:
  "reg_List fx_caps (reg (mgr fx_state)) [WithName ''alpha''] (world fx_state) = Inr [fx_service_item 2 StatusReady]
   \<and> as_service (fx_service_item 2 StatusReady) = Some 2
   \<and> AutoRestart (svc_Options fx_caps 2)
   \<and> fst (onConfigEvent fx_caps ''alpha'' fx_state) = Done
   \<and> trace (snd (onConfigEvent fx_caps ''alpha'' fx_state)) =
       [EnterStopService 2 [], EvServiceStop 2 [], EnterStartService 2, EvServiceStart 2, EvServiceOnServe 2]
   \<and> \<not> (\<exists>it rest v. reg_List fx_caps (reg (mgr fx_state)) [WithName ''beta''] (world fx_state) = Inr (it # rest)
             \<and> as_service it = Some v \<and> AutoRestart (svc_Options fx_caps v))
   \<and> onConfigEvent fx_caps ''beta'' fx_state = (Done, fx_state)"
proof -
  have l: "reg_List fx_caps (reg (mgr fx_state)) [WithName ''alpha''] (world fx_state) = Inr [fx_service_item 2 StatusReady]"
    by (simp add: fx_defs)
  have d: "as_service (fx_service_item 2 StatusReady) = Some 2"
    by (simp add: fx_defs)
  have a: "AutoRestart (svc_Options fx_caps 2)"
    by (simp add: fx_defs)
  have st: "svc_Stop fx_caps 2 [] (world fx_state) =
      (None, fx_world\<lparr>fx_svc_status := (fx_svc_status fx_world)(2 := StatusStopped)\<rparr>)"
    by (simp add: fx_caps_def fx_state_def fx_world_def)
  have go: "startService fx_caps 2
      (fx_state\<lparr>world := fx_world\<lparr>fx_svc_status := (fx_svc_status fx_world)(2 := StatusStopped)\<rparr>,
         trace := trace fx_state @ [EnterStopService 2 [], EvServiceStop 2 []]\<rparr>) =
      (Done, fx_state\<lparr>world := fx_world\<lparr>fx_svc_status := (fx_svc_status fx_world)(2 := StatusReady)\<rparr>,
         trace := [EnterStopService 2 [], EvServiceStop 2 [], EnterStartService 2, EvServiceStart 2, EvServiceOnServe 2]\<rparr>)"
    by (simp add: startService_def emit_def call_def Let_def fx_defs const_defs)
  have b: "\<not> (\<exists>it rest v. reg_List fx_caps (reg (mgr fx_state)) [WithName ''beta''] (world fx_state) = Inr (it # rest)
             \<and> as_service it = Some v \<and> AutoRestart (svc_Options fx_caps v))"
    by (simp add: fx_defs)
  from config_event_restarts_first_item [of fx_caps fx_state "''alpha''" "fx_service_item 2 StatusReady" "[]" 2, THEN conjunct1] l d a
  have "onConfigEvent fx_caps ''alpha'' fx_state =
      (Done, fx_state\<lparr>world := fx_world\<lparr>fx_svc_status := (fx_svc_status fx_world)(2 := StatusReady)\<rparr>,
         trace := [EnterStopService 2 [], EvServiceStop 2 [], EnterStartService 2, EvServiceStart 2, EvServiceOnServe 2]\<rparr>)"
    by (simp add: st go)
  moreover from config_event_restarts_first_item [of fx_caps fx_state "''beta''", THEN conjunct2] b
  have "onConfigEvent fx_caps ''beta'' fx_state = (Done, fx_state)"
    by simp
  ultimately show ?thesis
    using l d a b by simp
qed
subsection \<open>The service planner\<close>

lemma update_values: "snd ` set (AList.update k x al) \<subseteq> insert x (snd ` set al)"
  by (induction al) auto

lemma resolveServer_frame:
  assumes "resolveServer c sch bs s = (r, bs1, s1)"
  shows "mgr s1 = mgr s \<and> (trace s1 = trace s \<or> trace s1 = trace s @ [EvOpenServer sch])"
  using assms by (auto simp add: resolveServer_def split: option.splits prod.splits sum.splits)

lemma Init_loop_keeps_out:
  assumes nf: "\<forall>w. \<not> IsFork c w" and f: "Fork (svc_Options c v)" and a: "\<not> AutoStart (svc_Options c v)"
  shows "Init_loop c items bs s = (r, bs', s') \<Longrightarrow>
         (v \<in> snd ` set (services (mgr s')) \<longrightarrow> v \<in> snd ` set (services (mgr s))) \<and>
         (EvRegister rg (ServiceArg v) oo \<in> set (trace s') \<longrightarrow> EvRegister rg (ServiceArg v) oo \<in> set (trace s))"
proof (induction items arbitrary: bs s)
  case Nil
  then show ?case by simp
next
  case (Cons ss items)
  show ?case
  proof (cases "as_service ss")
    case None
    with Cons show ?thesis by simp
  next
    case (Some u)
    let ?s = "s\<lparr>optContextRegistry := (optContextRegistry s)(u := Some (reg (mgr s)))\<rparr>"
    show ?thesis
    proof (cases "u = v")
      case True
      with Some nf f a Cons.prems have "Init_loop c items bs ?s = (r, bs', s')"
        by (simp add: Let_def split: if_splits)
      from Cons.IH [OF this] show ?thesis by simp
    next
      case False
      let ?keep = "(\<not> IsRequired c (svc_Name c u) (Tags (svc_Options c u)) (world s) \<and> \<not> ForceRegister (svc_Options c u))
          \<or> (Fork (svc_Options c u) \<and> \<not> AutoStart (svc_Options c u))"
      show ?thesis
      proof (cases ?keep)
        case True
        with Some nf Cons.prems have "Init_loop c items bs ?s = (r, bs', s')"
          by (auto simp add: Let_def split: if_splits)
        from Cons.IH [OF this] show ?thesis by simp
      next
        case nk: False
        obtain rs bs1 s1 where rs: "resolveServer c (svc_ServerScheme c u) bs ?s = (rs, bs1, s1)"
          by (cases "resolveServer c (svc_ServerScheme c u) bs ?s") auto
        from resolveServer_frame [OF rs]
        have m1: "mgr s1 = mgr s" and t1: "set (trace s1) \<subseteq> set (trace s) \<union> {EvOpenServer (svc_ServerScheme c u)}"
          by auto
        show ?thesis
        proof (cases rs)
          case (Inl er)
          with Some nf nk rs Cons.prems have "s' = s1"
            by (auto simp add: Let_def)
          with m1 t1 show ?thesis by auto
        next
          case (Inr sr)
          let ?s2 = "s1\<lparr>optServer := (optServer s1)(u := Some sr)\<rparr>"
          show ?thesis
          proof (cases "Fork (svc_Options c u)")
            case True
            with Some nf nk rs Inr Cons.prems have "Init_loop c items bs1 ?s2 = (r, bs', s')"
              by (auto simp add: Let_def)
            from Cons.IH [OF this] m1 t1 show ?thesis by auto
          next
            case nfk: False
            show ?thesis
            proof (cases "root (mgr s1)")
              case None
              with Some nf nk rs Inr nfk Cons.prems have "s' = ?s2"
                by (auto simp add: Let_def)
              with m1 t1 show ?thesis by auto
            next
              case (Some rt)
              let ?ev = "EvRegister (reg (mgr s1)) (ServiceArg u) [WithEdgeTo (item_ID rt) ''Node'']"
              let ?p = "call ?ev (reg_Register c (reg (mgr s1)) (ServiceArg u) [WithEdgeTo (item_ID rt) ''Node'']) ?s2"
              have t3: "trace (snd ?p) = trace s1 @ [?ev]" and m3: "mgr (snd ?p) = mgr s"
                by (simp_all add: call_eq m1)
              show ?thesis
              proof (cases "fst ?p = Done")
                case True
                let ?s4 = "(snd ?p)\<lparr>mgr := (mgr (snd ?p))\<lparr>services := AList.update (svc_ID c u) u (services (mgr (snd ?p)))\<rparr>\<rparr>"
                from \<open>as_service ss = Some u\<close> nf nk rs Inr nfk Some True Cons.prems
                have "Init_loop c items bs1 ?s4 = (r, bs', s')"
                  by (cases ?p) (auto simp add: Let_def)
                from Cons.IH [OF this] have
                  "(v \<in> snd ` set (services (mgr s')) \<longrightarrow> v \<in> snd ` set (services (mgr ?s4))) \<and>
                   (EvRegister rg (ServiceArg v) oo \<in> set (trace s') \<longrightarrow> EvRegister rg (ServiceArg v) oo \<in> set (trace ?s4))"
                  by simp
                moreover have "v \<in> snd ` set (services (mgr ?s4)) \<Longrightarrow> v \<in> snd ` set (services (mgr s))"
                  using update_values [of "svc_ID c u" u "services (mgr s)"] \<open>u \<noteq> v\<close> by (auto simp add: m3)
                moreover have "EvRegister rg (ServiceArg v) oo \<in> set (trace ?s4) \<Longrightarrow> EvRegister rg (ServiceArg v) oo \<in> set (trace s)"
                  using t1 t3 \<open>u \<noteq> v\<close> by auto
                ultimately show ?thesis by blast
              next
                case False
                from \<open>as_service ss = Some u\<close> nf nk rs Inr nfk Some False Cons.prems
                have "s' = snd ?p"
                  by (cases ?p; cases "fst ?p") (auto simp add: Let_def)
                with t1 t3 m3 \<open>u \<noteq> v\<close> show ?thesis by auto
              qed
            qed
          qed
        qed
      qed
    qed
  qed
qed

lemma Init_servers_frame:
  "services (mgr (Init_servers c rt srs s)) = services (mgr s)
   \<and> (EvRegister rg a oo \<in> set (trace (Init_servers c rt srs s)) \<longrightarrow> EvRegister rg a oo \<in> set (trace s))"
proof (induction srs arbitrary: s)
  case Nil
  show ?case by simp
next
  case (Cons sr srs)
  let ?s1 = "s\<lparr>mgr := (mgr s)\<lparr>servers := AList.update (srv_ID c sr) sr (servers (mgr s))\<rparr>\<rparr>"
  let ?s2 = "snd (call (EvRegisterEdge (reg (mgr ?s1)) (item_ID rt) (srv_ID c sr) ''Node'')
             (reg_RegisterEdge c (reg (mgr ?s1)) (item_ID rt) (srv_ID c sr) ''Node'') ?s1)"
  have step: "Init_servers c rt (sr # srs) s = Init_servers c rt srs ?s2"
    by (simp add: Let_def split: prod.splits)
  have "services (mgr ?s2) = services (mgr s)"
    and "EvRegister rg a oo \<in> set (trace ?s2) \<longrightarrow> EvRegister rg a oo \<in> set (trace s)"
    by (simp_all add: call_eq)
  with Cons.IH [of ?s2] show ?case
    unfolding step by simp
qed

text \<open>
  Claim C7. In a process that is not a fork, \<open>Init\<close> never puts a service \<open>v\<close> with \<open>Fork\<close>
  set and \<open>AutoStart\<close> unset into the local map of services, and never calls \<open>Register\<close>
  for it on any registry: \<open>v\<close> is among the services of the manager after \<open>Init\<close> only if it
  was before, and a \<open>Register\<close> event for \<open>v\<close> is in the trace after \<open>Init\<close> only if it was
  before. This holds however \<open>Init\<close> ends (nil, an error or a panic).
\<close>

theorem fork_only_service_not_registered:
  assumes "\<forall>w. \<not> IsFork c w" and "Fork (svc_Options c v)" and "\<not> AutoStart (svc_Options c v)"
  shows "(v \<in> snd ` set (services (mgr (snd (Init c s)))) \<longrightarrow> v \<in> snd ` set (services (mgr s)))
       \<and> (EvRegister rg (ServiceArg v) oo \<in> set (trace (snd (Init c s)))
            \<longrightarrow> EvRegister rg (ServiceArg v) oo \<in> set (trace s))"
proof (cases "OpenRegistry c (srcUrl (mgr s)) (world s)")
  case (Pair ro w1)
  show ?thesis
  proof (cases ro)
    case (Inl err)
    with Pair show ?thesis by (simp add: Init_def)
  next
    case (Inr srcReg)
    let ?s1 = "s\<lparr>world := runtime_Init c (ns (mgr s)) w1,
                 trace := trace s @ [EvOpenRegistry (srcUrl (mgr s)), EvRuntimeInit (ns (mgr s))]\<rparr>"
    show ?thesis
    proof (cases "reg_List c srcReg [WithType SERVICE] (world ?s1)")
      case (Inl err)
      with Pair Inr show ?thesis by (simp add: Init_def Let_def)
    next
      case lst: (Inr candidates)
      obtain r bs s2 where lp: "Init_loop c candidates [] ?s1 = (r, bs, s2)"
        by (cases "Init_loop c candidates [] ?s1") auto
      from Init_loop_keeps_out [OF assms lp, of rg oo]
      have k: "v \<in> snd ` set (services (mgr s2)) \<longrightarrow> v \<in> snd ` set (services (mgr s))"
        "EvRegister rg (ServiceArg v) oo \<in> set (trace s2) \<longrightarrow> EvRegister rg (ServiceArg v) oo \<in> set (trace s)"
        by auto
      have "snd (Init c s) = s2 \<or> (\<exists>rt. snd (Init c s) = Init_servers c rt (map snd bs) s2)"
        using Pair Inr lst lp by (auto simp add: Init_def Let_def split: ret.splits option.splits)
      then show ?thesis
        using k Init_servers_frame [of c _ "map snd bs" s2 rg "ServiceArg v" oo] by auto
    qed
  qed
qed

theorem fork_only_service_not_registered_witness:
  "(\<forall>w. \<not> IsFork fx_caps w) \<and> Fork (svc_Options fx_caps 4) \<and> \<not> AutoStart (svc_Options fx_caps 4)
   \<and> reg_List fx_caps 8 [WithType SERVICE] (world fx_boot) =
        Inr [fx_service_item 2 StatusStopped, fx_service_item 3 StatusStopped, fx_service_item 4 StatusStopped]
   \<and> as_service (fx_service_item 4 StatusStopped) = Some 4
   \<and> 4 \<notin> snd ` set (services (mgr (snd (Init fx_caps (NewManager fx_caps 7 ''mem://'' ''main'' fx_boot)))))
   \<and> EvRegister 7 (ServiceArg 4) [WithEdgeTo ''node-100'' ''Node'']
        \<notin> set (trace (snd (Init fx_caps (NewManager fx_caps 7 ''mem://'' ''main'' fx_boot))))"
proof -
  let ?s = "NewManager fx_caps 7 ''mem://'' ''main'' fx_boot"
  have nf: "\<forall>w. \<not> IsFork fx_caps w"
    by (simp add: fx_caps_def)
  have f: "Fork (svc_Options fx_caps 4)" and a: "\<not> AutoStart (svc_Options fx_caps 4)"
    by (simp_all add: fx_defs)
  have l: "reg_List fx_caps 8 [WithType SERVICE] (world fx_boot) =
        Inr [fx_service_item 2 StatusStopped, fx_service_item 3 StatusStopped, fx_service_item 4 StatusStopped]"
    by (simp add: fx_defs fx_defs2)
  have d: "as_service (fx_service_item 4 StatusStopped) = Some 4"
    by (simp add: fx_defs)
  have s: "services (mgr ?s) = []"
    and t: "trace ?s = [EvCreateNode, EvRegister 7 (ItemArg fx_root) []]"
    by (simp_all add: NewManager_def call_def Let_def fx_defs fx_defs2 const_defs)
  from fork_only_service_not_registered [OF nf f a, of ?s 7 "[WithEdgeTo ''node-100'' ''Node'']"] s t
  have "4 \<notin> snd ` set (services (mgr (snd (Init fx_caps ?s))))
      \<and> EvRegister 7 (ServiceArg 4) [WithEdgeTo ''node-100'' ''Node''] \<notin> set (trace (snd (Init fx_caps ?s)))"
    by auto
  with nf f a l d show ?thesis by simp
qed

lemma Init_loop_nil_root:
  assumes "root (mgr s) = None" and "as_service ss = Some v"
    and "IsRequired c (svc_Name c v) (Tags (svc_Options c v)) (world s) \<or> ForceRegister (svc_Options c v)"
    and "\<not> Fork (svc_Options c v) \<or> IsFork c (world s)"
    and "fst (OpenServer c (svc_ServerScheme c v) (world s)) = Inr x \<or> map_of byScheme (svc_ServerScheme c v) = Some x"
  shows "fst (Init_loop c (ss # rest) byScheme s) = Panicked"
  using assms
  by (auto simp add: resolveServer_def Let_def split: option.splits prod.splits sum.splits)

text \<open>
  Claim C2 does not hold of the code. With the shared registry down, \<open>NewManager\<close> cannot
  register the node it creates and leaves the root nil. \<open>Init\<close> then opens the source
  registry, takes the first candidate (required, not a fork), opens its server and panics on
  \<open>m.root.ID()\<close> in the argument of \<open>Register\<close>: the loop over the services has no test of
  the root, the loop over the servers has one. \<open>Init_loop_nil_root\<close> says so for any
  collaborators.
\<close>

theorem Init_with_nil_root_panics:
  "root (mgr (NewManager fx_caps 7 ''mem://'' ''main'' fx_boot_registry_down)) = None
   \<and> fst (Init fx_caps (NewManager fx_caps 7 ''mem://'' ''main'' fx_boot_registry_down)) = Panicked"
  by (simp add: NewManager_def Init_def resolveServer_def call_def Let_def fx_defs fx_defs2 const_defs)

end
